theory Spec2Isabelle
  imports Complex_Main
begin

section \<open>Python values and exceptions\<close>

text \<open>
  The wrapper in \<^verbatim>\<open>app/encryption.py\<close> and the route in \<^verbatim>\<open>app/routes.py\<close> raise
  Python exceptions; they are values here, \<open>Inl\<close> of a sum. \<open>HTTPException\<close> carries the
  status code, the literal part of its detail and, for the handlers that format
  \<^verbatim>\<open>f"...: {str(e)}"\<close>, the exception whose text is appended. \<open>KeyError\<close> carries the
  missing key. \<open>KeyMismatchError\<close>, \<open>EncodingOverflow\<close> and \<open>DecryptionError\<close> are the
  specification's names for failures inside the Paillier library, which is not part of the
  repository's sources.
\<close>

datatype pyexn =
    JSONDecodeError
  | KeyError string
  | IndexError
  | TypeError
  | ValueError
  | OverflowError
  | ZeroDivisionError
  | KeyMismatchError
  | EncodingOverflow
  | DecryptionError
  | HTTPException nat string "pyexn option"

fun and_then :: "pyexn + 'a \<Rightarrow> ('a \<Rightarrow> pyexn + 'b) \<Rightarrow> pyexn + 'b" where
  "and_then (Inl e) f = Inl e"
| "and_then (Inr v) f = f v"

text \<open>
  A Python \<^verbatim>\<open>float\<close>: a finite value (a rational; every double is one) or one of the
  three special values.
\<close>

datatype pyfloat = Finite rat | NaN | PosInf | NegInf

text \<open>
  What \<^verbatim>\<open>json.loads\<close> returns: \<^verbatim>\<open>None\<close>, \<^verbatim>\<open>bool\<close>, \<^verbatim>\<open>int\<close> (unbounded),
  \<^verbatim>\<open>float\<close>, \<^verbatim>\<open>str\<close>, \<^verbatim>\<open>list\<close> and \<^verbatim>\<open>dict\<close> with string keys (an association list in
  insertion order, looked up by key; a \<^verbatim>\<open>dict\<close> holds each key once).
\<close>

datatype json =
    JNull
  | JBool bool
  | JInt int
  | JFloat pyfloat
  | JStr string
  | JList "json list"
  | JDict "(string \<times> json) list"

text \<open>
  A \<^verbatim>\<open>str\<close> that is meant to hold JSON text. \<^verbatim>\<open>json.dumps\<close> and \<^verbatim>\<open>json.loads\<close> belong to
  Python's standard library; the text they exchange is represented by the value it denotes
  (\<open>Doc v\<close>), and every text that is not JSON by \<open>NotJSON\<close>. That \<^verbatim>\<open>json.loads\<close>
  returns the value that \<^verbatim>\<open>json.dumps\<close> was given is therefore part of the representation,
  not a result about the library.
\<close>

datatype jstr = Doc json | NotJSON

definition json_dumps :: "json \<Rightarrow> jstr" where
  "json_dumps v = Doc v"

fun json_loads :: "jstr \<Rightarrow> pyexn + json" where
  "json_loads (Doc v) = Inr v"
| "json_loads NotJSON = Inl JSONDecodeError"

text \<open>The subscript \<^verbatim>\<open>data['key']\<close> with a string key.\<close>

fun py_getitem :: "json \<Rightarrow> string \<Rightarrow> pyexn + json" where
  "py_getitem (JDict kvs) k = (case map_of kvs k of None \<Rightarrow> Inl (KeyError k) | Some v \<Rightarrow> Inr v)"
| "py_getitem v k = Inl TypeError"

text \<open>The subscript \<^verbatim>\<open>xs[0]\<close> of a list.\<close>

fun py_first :: "'a list \<Rightarrow> pyexn + 'a" where
  "py_first [] = Inl IndexError"
| "py_first (x # xs) = Inr x"

subsection \<open>\<^verbatim>\<open>str(int)\<close> and \<^verbatim>\<open>int(str)\<close>\<close>

definition digit_char :: "nat \<Rightarrow> char" where
  "digit_char d = ''0123456789'' ! d"

definition digit_value :: "char \<Rightarrow> nat option" where
  "digit_value c = map_of (zip ''0123456789'' [0, 1, 2, 3, 4, 5, 6, 7, 8, 9]) c"

function str_nat :: "nat \<Rightarrow> string" where
  "str_nat k = (if k < 10 then [digit_char k] else str_nat (k div 10) @ [digit_char (k mod 10)])"
  by pat_completeness auto
termination
  by (relation "measure id") auto

declare str_nat.simps [simp del]

text \<open>\<^verbatim>\<open>str(i)\<close> for an \<^verbatim>\<open>int\<close>: the decimal digits, after a minus sign when negative.\<close>

definition str_int :: "int \<Rightarrow> string" where
  "str_int i = (if i < 0 then CHR ''-'' # str_nat (nat (- i)) else str_nat (nat i))"

text \<open>
  \<^verbatim>\<open>int(s)\<close> for a \<^verbatim>\<open>str\<close> of ASCII characters: the whitespace that surrounds the
  numeral is dropped (tab, line feed, vertical tab, form feed, carriage return and space;
  no other control character), one sign is allowed, then come decimal digits, where single
  underscores may separate digits. \<open>None\<close> is Python's
  \<^verbatim>\<open>ValueError: invalid literal for int() with base 10\<close>.
  Outside ASCII, Python also accepts the spaces and decimal digits of Unicode; such text is
  outside this model, and \<open>is_ascii\<close> below marks the strings it speaks about.
  The interpreter's limit on the number of digits of such a conversion is not modelled.
\<close>

definition is_space :: "char \<Rightarrow> bool" where
  "is_space c = (c \<in> set [CHR 0x09, CHR 0x0A, CHR 0x0B, CHR 0x0C, CHR 0x0D, CHR '' ''])"

definition strip :: "string \<Rightarrow> string" where
  "strip s = rev (dropWhile is_space (rev (dropWhile is_space s)))"

fun digits_from :: "bool \<Rightarrow> nat \<Rightarrow> string \<Rightarrow> nat option" where
  "digits_from seen acc [] = (if seen then Some acc else None)"
| "digits_from seen acc (c # cs) =
     (case digit_value c of
        Some d \<Rightarrow> digits_from True (10 * acc + d) cs
      | None \<Rightarrow> if c = CHR ''_'' \<and> seen then digits_from False acc cs else None)"

definition int_of_str :: "string \<Rightarrow> int option" where
  "int_of_str s =
     (case strip s of
        [] \<Rightarrow> None
      | c # cs \<Rightarrow>
          if c = CHR ''-'' then map_option (\<lambda>v. - int v) (digits_from False 0 cs)
          else if c = CHR ''+'' then map_option int (digits_from False 0 cs)
          else map_option int (digits_from False 0 (c # cs)))"

text \<open>The strings all of whose characters are ASCII, as \<^verbatim>\<open>s.isascii()\<close> tells.\<close>

definition is_ascii :: "string \<Rightarrow> bool" where
  "is_ascii s = list_all (\<lambda>c. (of_char c :: nat) < 128) s"

text \<open>
  \<^verbatim>\<open>int(v)\<close> on a value read from JSON: an \<^verbatim>\<open>int\<close> is returned as it is, a \<^verbatim>\<open>bool\<close> is
  0 or 1, a \<^verbatim>\<open>float\<close> is truncated towards zero, a \<^verbatim>\<open>str\<close> is parsed, anything else is a
  \<^verbatim>\<open>TypeError\<close>.
\<close>

fun py_int :: "json \<Rightarrow> pyexn + int" where
  "py_int (JInt i) = Inr i"
| "py_int (JBool b) = Inr (if b then 1 else 0)"
| "py_int (JFloat (Finite x)) = Inr (if 0 \<le> x then \<lfloor>x\<rfloor> else \<lceil>x\<rceil>)"
| "py_int (JFloat NaN) = Inl ValueError"
| "py_int (JFloat PosInf) = Inl OverflowError"
| "py_int (JFloat NegInf) = Inl OverflowError"
| "py_int (JStr s) = (case int_of_str s of None \<Rightarrow> Inl ValueError | Some i \<Rightarrow> Inr i)"
| "py_int JNull = Inl TypeError"
| "py_int (JList xs) = Inl TypeError"
| "py_int (JDict kvs) = Inl TypeError"

text \<open>\<^verbatim>\<open>s.lower()\<close> on ASCII text.\<close>

definition lower_char :: "char \<Rightarrow> char" where
  "lower_char c =
     (case map_of (zip ''ABCDEFGHIJKLMNOPQRSTUVWXYZ'' ''abcdefghijklmnopqrstuvwxyz'') c of
        Some d \<Rightarrow> d
      | None \<Rightarrow> c)"

definition lower :: "string \<Rightarrow> string" where
  "lower s = map lower_char s"

section \<open>The Paillier library\<close>

text \<open>
  The package \<^verbatim>\<open>phe\<close> is imported by \<^verbatim>\<open>app/encryption.py\<close> and is not among the
  repository's sources. Its classes and operations are modelled from sections 3 and 4 of the
  specification.
\<close>

text \<open>
  Modelled from the spec: the class \<^verbatim>\<open>paillier.PaillierPublicKey\<close> is missing;
  PublicKey is \<open>{n, g}\<close> with \<open>g = n + 1\<close>.
\<close>

record PaillierPublicKey =
  pk_n :: int

definition pk_g :: "PaillierPublicKey \<Rightarrow> int" where
  "pk_g pk = pk_n pk + 1"

text \<open>
  Modelled from the spec: the attribute \<^verbatim>\<open>nsquare\<close> is missing; the ciphertext group is
  taken modulo \<open>n\<^sup>2\<close>.
\<close>

definition nsquare :: "PaillierPublicKey \<Rightarrow> int" where
  "nsquare pk = pk_n pk * pk_n pk"

text \<open>
  Modelled from the spec: the class \<^verbatim>\<open>paillier.PaillierPrivateKey\<close> is missing;
  PrivateKey is \<open>{p, q}\<close> and refers to its PublicKey.
\<close>

record PaillierPrivateKey =
  sk_public_key :: PaillierPublicKey
  sk_p :: int
  sk_q :: int

text \<open>
  Modelled from the spec: the constructor of \<^verbatim>\<open>paillier.PaillierPrivateKey\<close> is missing;
  the invariants \<open>p * q = n\<close> and \<open>p \<noteq> q\<close> of section 3 are validated when the key is
  constructed.
\<close>

definition new_private_key :: "PaillierPublicKey \<Rightarrow> int \<Rightarrow> int \<Rightarrow> pyexn + PaillierPrivateKey" where
  "new_private_key pk p q =
     (if p * q \<noteq> pk_n pk then Inl ValueError
      else if p = q then Inl ValueError
      else Inr \<lparr>sk_public_key = pk, sk_p = p, sk_q = q\<rparr>)"

text \<open>
  Modelled from the spec: the class \<^verbatim>\<open>paillier.EncryptedNumber\<close> is missing;
  EncryptedNumber is \<open>{ciphertext, exponent, publicKeyRef}\<close>, an immutable value whose
  \<^verbatim>\<open>ciphertext()\<close> and \<^verbatim>\<open>exponent\<close> read its fields. The wrapper stores under
  \<^verbatim>\<open>exponent\<close> whatever value the JSON text holds, so the field is a JSON value; the
  library's own numbers hold a \<open>JInt\<close>.
\<close>

record EncryptedNumber =
  en_public_key :: PaillierPublicKey
  en_ciphertext :: int
  en_exponent :: json

text \<open>
  The encoding of a float as mantissa and exponent is a parameter of the model: the
  specification fixes neither the base (base 2 or base 16) nor the rounding. \<open>encode\<close>
  returns the signed integer \<open>m\<close> and the exponent with \<open>m * BASE ^ exponent\<close> close to
  the value, or \<open>None\<close> when the value cannot be represented; \<open>decode\<close> maps a residue
  modulo \<open>n\<close> and an exponent back to a float.
\<close>

record encoding =
  BASE :: nat
  encode :: "PaillierPublicKey \<Rightarrow> pyfloat \<Rightarrow> (int \<times> int) option"
  decode :: "PaillierPublicKey \<Rightarrow> int \<Rightarrow> int \<Rightarrow> pyfloat option"

text \<open>
  Modelled from the spec: the modular arithmetic of the library is missing; \<open>b^e mod m\<close>
  is the power reduced modulo \<open>m\<close>.
\<close>

definition powmod :: "int \<Rightarrow> nat \<Rightarrow> int \<Rightarrow> int" where
  "powmod b e m = (b ^ e) mod m"

text \<open>
  Modelled from the spec: the modular inverse of the library is missing; the inverse of
  \<open>a\<close> modulo \<open>m\<close> is computed by the extended Euclidean algorithm, and there is none
  unless \<open>a\<close> and \<open>m\<close> are coprime.
\<close>

definition invert :: "int \<Rightarrow> int \<Rightarrow> pyexn + int" where
  "invert a m =
     (if m \<le> 0 then Inl ZeroDivisionError
      else if gcd a m = 1 then Inr (fst (bezw (nat (a mod m)) (nat m)) mod m)
      else Inl ZeroDivisionError)"

text \<open>
  Modelled from the spec: the raw encryption of the library is missing. Section 4.2: the
  ciphertext is \<open>g^m * r^n mod n\<^sup>2\<close> for the blinding factor \<open>r\<close>, which is an argument
  here.
\<close>

definition raw_encrypt :: "PaillierPublicKey \<Rightarrow> int \<Rightarrow> int \<Rightarrow> int" where
  "raw_encrypt pk m r = (pk_g pk ^ nat m * r ^ nat (pk_n pk)) mod nsquare pk"

text \<open>
  Modelled from the spec: \<^verbatim>\<open>PaillierPublicKey.encrypt\<close> is missing. Section 4.2: the
  value is encoded, the mantissa is mapped into \<open>[0, n)\<close> by \<open>m mod n\<close>, a mantissa
  outside fails with \<open>EncodingOverflow\<close>, and the result carries the exponent of the
  encoding. A modulus of zero (excluded by the invariant \<open>n > 0\<close>) raises.
\<close>

definition encrypt :: "encoding \<Rightarrow> PaillierPublicKey \<Rightarrow> pyfloat \<Rightarrow> int \<Rightarrow> pyexn + EncryptedNumber" where
  "encrypt sch pk x r =
     (case encode sch pk x of
        None \<Rightarrow> Inl EncodingOverflow
      | Some (m, e) \<Rightarrow>
          if pk_n pk = 0 then Inl ZeroDivisionError
          else
            let m' = m mod pk_n pk in
            if 0 \<le> m' \<and> m' < pk_n pk
            then Inr \<lparr>en_public_key = pk, en_ciphertext = raw_encrypt pk m' r, en_exponent = JInt e\<rparr>
            else Inl EncodingOverflow)"

text \<open>
  Modelled from the spec: the function \<open>L\<close> of the decryption is missing. Section 4.2:
  \<open>L(x) = (x - 1) div n\<close>.
\<close>

definition L_function :: "int \<Rightarrow> int \<Rightarrow> int" where
  "L_function x m = (x - 1) div m"

text \<open>
  Modelled from the spec: \<^verbatim>\<open>PaillierPrivateKey.decrypt\<close> is missing. Section 4.2:
  \<open>u = L(c^\<lambda> mod n\<^sup>2) * \<mu> mod n\<close> with \<open>\<lambda> = lcm (p - 1) (q - 1)\<close> and \<open>\<mu>\<close> the
  inverse of \<open>\<lambda>\<close> modulo \<open>n\<close>; it fails with \<open>DecryptionError\<close> when \<open>p * q\<close> is not
  \<open>n\<close> or when \<open>c\<close> is not coprime to \<open>n\<^sup>2\<close>. The result is decoded with the stored
  exponent, which has to be an integer.
\<close>

definition decrypt :: "encoding \<Rightarrow> PaillierPrivateKey \<Rightarrow> EncryptedNumber \<Rightarrow> pyexn + pyfloat" where
  "decrypt sch sk c =
     (let pk = sk_public_key sk; m = pk_n pk in
      if sk_p sk * sk_q sk = m then
        if gcd (en_ciphertext c) (nsquare pk) = 1 then
          if m = 0 then Inl ZeroDivisionError
          else
            let lam = lcm (sk_p sk - 1) (sk_q sk - 1) in
            and_then (invert lam m) (\<lambda>mu.
              let u = (L_function (powmod (en_ciphertext c) (nat lam) (nsquare pk)) m * mu) mod m in
              case en_exponent c of
                JInt e \<Rightarrow> (case decode sch pk u e of None \<Rightarrow> Inl EncodingOverflow | Some x \<Rightarrow> Inr x)
              | _ \<Rightarrow> Inl TypeError)
        else Inl DecryptionError
      else Inl DecryptionError)"

text \<open>
  Modelled from the spec: the rescaling of an operand is missing. Section 4.3: the operand
  with the larger exponent is rescaled down by ciphertext exponentiation, here by
  \<open>BASE ^ d\<close> for the difference \<open>d\<close> of the exponents.
\<close>

definition rescale :: "encoding \<Rightarrow> PaillierPublicKey \<Rightarrow> int \<Rightarrow> int \<Rightarrow> int" where
  "rescale sch pk c d = powmod c (BASE sch ^ nat d) (nsquare pk)"

text \<open>
  Modelled from the spec: \<^verbatim>\<open>EncryptedNumber.__add__\<close> is missing. Section 4.3: operands
  with different keys fail with \<open>KeyMismatchError\<close> before any arithmetic; the exponents are
  aligned to the smaller one; the ciphertexts are multiplied modulo \<open>n\<^sup>2\<close>; the result
  carries the smaller exponent. An exponent that is not an integer cannot be aligned.
\<close>

definition enc_add :: "encoding \<Rightarrow> EncryptedNumber \<Rightarrow> EncryptedNumber \<Rightarrow> pyexn + EncryptedNumber" where
  "enc_add sch a b =
     (if en_public_key a \<noteq> en_public_key b then Inl KeyMismatchError
      else
        case (en_exponent a, en_exponent b) of
          (JInt ea, JInt eb) \<Rightarrow>
            let pk = en_public_key a; e = min ea eb in
            if pk_n pk = 0 then Inl ZeroDivisionError
            else Inr \<lparr>en_public_key = pk,
                      en_ciphertext = (rescale sch pk (en_ciphertext a) (ea - e) *
                                       rescale sch pk (en_ciphertext b) (eb - e)) mod nsquare pk,
                      en_exponent = JInt e\<rparr>
        | _ \<Rightarrow> Inl TypeError)"

text \<open>
  Modelled from the spec: \<^verbatim>\<open>EncryptedNumber.__mul__\<close> is missing. Section 4.3: the scalar
  is encoded as \<open>k\<close> like a plaintext, the ciphertext is raised to \<open>|k|\<close> modulo \<open>n\<^sup>2\<close> and,
  for a negative scalar, inverted modulo \<open>n\<^sup>2\<close>; the exponents add up.
\<close>

definition enc_mul :: "encoding \<Rightarrow> EncryptedNumber \<Rightarrow> pyfloat \<Rightarrow> pyexn + EncryptedNumber" where
  "enc_mul sch a x =
     (let pk = en_public_key a in
      case encode sch pk x of
        None \<Rightarrow> Inl EncodingOverflow
      | Some (k, ek) \<Rightarrow>
          (case en_exponent a of
             JInt ea \<Rightarrow>
               if pk_n pk = 0 then Inl ZeroDivisionError
               else
                 let c = powmod (en_ciphertext a) (nat \<bar>k\<bar>) (nsquare pk) in
                 and_then (if k < 0 then invert c (nsquare pk) else Inr c) (\<lambda>c'.
                   Inr \<lparr>en_public_key = pk, en_ciphertext = c', en_exponent = JInt (ea + ek)\<rparr>)
           | _ \<Rightarrow> Inl TypeError))"

section \<open>\<^verbatim>\<open>app/encryption.py\<close>: class HomomorphicEncryption\<close>

definition serialize_public_key :: "PaillierPublicKey \<Rightarrow> jstr" where
  "serialize_public_key pk = json_dumps (JDict [(''n'', JInt (pk_n pk))])"

definition deserialize_public_key :: "jstr \<Rightarrow> pyexn + PaillierPublicKey" where
  "deserialize_public_key key_str =
     and_then (json_loads key_str) (\<lambda>key_data.
     and_then (py_getitem key_data ''n'') (\<lambda>v.
     and_then (py_int v) (\<lambda>i.
       Inr \<lparr>pk_n = i\<rparr>)))"

definition serialize_private_key :: "PaillierPrivateKey \<Rightarrow> jstr" where
  "serialize_private_key sk = json_dumps (JDict [(''p'', JInt (sk_p sk)), (''q'', JInt (sk_q sk))])"

definition deserialize_private_key :: "jstr \<Rightarrow> PaillierPublicKey \<Rightarrow> pyexn + PaillierPrivateKey" where
  "deserialize_private_key key_str pk =
     and_then (json_loads key_str) (\<lambda>key_data.
     and_then (py_getitem key_data ''p'') (\<lambda>vp.
     and_then (py_int vp) (\<lambda>p.
     and_then (py_getitem key_data ''q'') (\<lambda>vq.
     and_then (py_int vq) (\<lambda>q.
       new_private_key pk p q)))))"

text \<open>
  The block that \<^verbatim>\<open>encrypt_number\<close>, \<^verbatim>\<open>add_encrypted_numbers\<close> and
  \<^verbatim>\<open>multiply_encrypted_by_scalar\<close> end with:
  \<^verbatim>\<open>json.dumps({'ciphertext': str(x.ciphertext()), 'exponent': x.exponent})\<close>.
\<close>

definition dump_encrypted_number :: "EncryptedNumber \<Rightarrow> jstr" where
  "dump_encrypted_number x =
     json_dumps (JDict [(''ciphertext'', JStr (str_int (en_ciphertext x))),
                        (''exponent'', en_exponent x)])"

text \<open>
  The block that \<^verbatim>\<open>decrypt_number\<close>, \<^verbatim>\<open>add_encrypted_numbers\<close> (twice) and
  \<^verbatim>\<open>multiply_encrypted_by_scalar\<close> start with: \<^verbatim>\<open>data = json.loads(s)\<close>, then
  \<^verbatim>\<open>paillier.EncryptedNumber(public_key=pk, ciphertext=int(data['ciphertext']),
  exponent=data['exponent'])\<close>, the arguments evaluated from left to right.
\<close>

definition load_encrypted_number :: "PaillierPublicKey \<Rightarrow> jstr \<Rightarrow> pyexn + EncryptedNumber" where
  "load_encrypted_number pk encrypted_str =
     and_then (json_loads encrypted_str) (\<lambda>data.
     and_then (py_getitem data ''ciphertext'') (\<lambda>v.
     and_then (py_int v) (\<lambda>c.
     and_then (py_getitem data ''exponent'') (\<lambda>e.
       Inr \<lparr>en_public_key = pk, en_ciphertext = c, en_exponent = e\<rparr>))))"

definition encrypt_number :: "encoding \<Rightarrow> PaillierPublicKey \<Rightarrow> pyfloat \<Rightarrow> int \<Rightarrow> pyexn + jstr" where
  "encrypt_number sch pk number r =
     and_then (encrypt sch pk number r) (\<lambda>encrypted.
       Inr (dump_encrypted_number encrypted))"

definition decrypt_number :: "encoding \<Rightarrow> PaillierPrivateKey \<Rightarrow> jstr \<Rightarrow> pyexn + pyfloat" where
  "decrypt_number sch sk encrypted_str =
     and_then (load_encrypted_number (sk_public_key sk) encrypted_str) (\<lambda>encrypted_num.
       decrypt sch sk encrypted_num)"

text \<open>The loop \<^verbatim>\<open>for encrypted_str in encrypted_nums[1:]\<close> of \<^verbatim>\<open>add_encrypted_numbers\<close>.\<close>

fun add_remaining ::
  "encoding \<Rightarrow> PaillierPublicKey \<Rightarrow> EncryptedNumber \<Rightarrow> jstr list \<Rightarrow> pyexn + EncryptedNumber" where
  "add_remaining sch pk result [] = Inr result"
| "add_remaining sch pk result (encrypted_str # rest) =
     and_then (load_encrypted_number pk encrypted_str) (\<lambda>encrypted_num.
     and_then (enc_add sch result encrypted_num) (\<lambda>result'.
       add_remaining sch pk result' rest))"

definition add_encrypted_numbers :: "encoding \<Rightarrow> PaillierPublicKey \<Rightarrow> jstr list \<Rightarrow> pyexn + jstr" where
  "add_encrypted_numbers sch pk encrypted_nums =
     and_then (py_first encrypted_nums) (\<lambda>first.
     and_then (load_encrypted_number pk first) (\<lambda>result.
     and_then (add_remaining sch pk result (tl encrypted_nums)) (\<lambda>result'.
       Inr (dump_encrypted_number result'))))"

definition multiply_encrypted_by_scalar ::
  "encoding \<Rightarrow> PaillierPublicKey \<Rightarrow> jstr \<Rightarrow> pyfloat \<Rightarrow> pyexn + jstr" where
  "multiply_encrypted_by_scalar sch pk encrypted_str scalar =
     and_then (load_encrypted_number pk encrypted_str) (\<lambda>encrypted_num.
     and_then (enc_mul sch encrypted_num scalar) (\<lambda>result.
       Inr (dump_encrypted_number result)))"

section \<open>\<^verbatim>\<open>app/routes.py\<close>: the route \<^verbatim>\<open>/compute\<close>\<close>

text \<open>The request and response models of \<^verbatim>\<open>app/models.py\<close>, after validation.\<close>

record ComputeRequest =
  encrypted_numbers :: "jstr list"
  public_key :: jstr
  operation :: string
  multiplier :: "pyfloat option"

record ComputeResponse =
  encrypted_result :: jstr

text \<open>
  The handlers \<^verbatim>\<open>except HTTPException: raise\<close> and
  \<^verbatim>\<open>except Exception as e: raise HTTPException(status_code=500, detail=f"...: {str(e)}")\<close>.
\<close>

fun reraise :: "string \<Rightarrow> pyexn + 'a \<Rightarrow> pyexn + 'a" where
  "reraise msg (Inr v) = Inr v"
| "reraise msg (Inl (HTTPException status detail cause)) = Inl (HTTPException status detail cause)"
| "reraise msg (Inl e) = Inl (HTTPException 500 msg (Some e))"

text \<open>The detail \<^verbatim>\<open>"Invalid operation. Use 'add', 'sum', or 'multiply'"\<close>.\<close>

definition invalid_operation_detail :: string where
  "invalid_operation_detail = ''Invalid operation. Use 'add', 'sum', or 'multiply'' @ [CHR 0x27]"

definition compute_on_encrypted :: "encoding \<Rightarrow> ComputeRequest \<Rightarrow> pyexn + ComputeResponse" where
  "compute_on_encrypted sch request =
     reraise ''Computation failed: ''
       (and_then (deserialize_public_key (public_key request)) (\<lambda>pk.
          let op = lower (operation request) in
          and_then
            (if op \<in> set [''add'', ''sum''] then
               add_encrypted_numbers sch pk (encrypted_numbers request)
             else if op = ''multiply'' then
               (case multiplier request of
                  None \<Rightarrow> Inl (HTTPException 400 ''Multiplier required for multiply operation'' None)
                | Some k \<Rightarrow>
                    and_then (py_first (encrypted_numbers request)) (\<lambda>first.
                      multiply_encrypted_by_scalar sch pk first k))
             else Inl (HTTPException 400 invalid_operation_detail None))
            (\<lambda>result. Inr \<lparr>encrypted_result = result\<rparr>)))"

section \<open>\<^verbatim>\<open>app/routes.py\<close>: the route \<^verbatim>\<open>/demo/full-workflow\<close>\<close>






section \<open>An encoding of the integers\<close>

text \<open>
  An instance of the encoding for evaluating the operations on concrete inputs: base 16,
  integral values encoded exactly with exponent 0, residues decoded to the representative
  of least absolute value.
\<close>

definition integer_encoding :: encoding where
  "integer_encoding =
     \<lparr>BASE = 16,
      encode = (\<lambda>pk x. case x of Finite v \<Rightarrow> if of_int \<lfloor>v\<rfloor> = v then Some (\<lfloor>v\<rfloor>, 0) else None
                               | _ \<Rightarrow> None),
      decode = (\<lambda>pk u e. if e = 0 then Some (Finite (of_int (if 2 * u < pk_n pk then u else u - pk_n pk)))
                          else None)\<rparr>"

section \<open>Vocabulary of the properties\<close>

text \<open>The value under a field of a serialized form, when the text is a JSON object.\<close>

definition wire_field :: "jstr \<Rightarrow> string \<Rightarrow> json option" where
  "wire_field t k = (case t of Doc (JDict kvs) \<Rightarrow> map_of kvs k | _ \<Rightarrow> None)"

text \<open>A JSON string that is the decimal numeral of an integer, as \<^verbatim>\<open>str\<close> writes it.\<close>

definition decimal_string :: "json \<Rightarrow> bool" where
  "decimal_string v =
     (case v of
        JStr s \<Rightarrow> (case int_of_str s of Some i \<Rightarrow> s = str_int i | None \<Rightarrow> False)
      | _ \<Rightarrow> False)"












section \<open>Lemmas\<close>

subsection \<open>Decimal numerals\<close>

lemma digit_value_char: "d < 10 \<Longrightarrow> digit_value (digit_char d) = Some d"
proof -
  assume "d < 10"
  then have "d \<in> {0, 1, 2, 3, 4, 5, 6, 7, 8, 9}" by auto
  then show ?thesis
    by (auto simp: digit_value_def digit_char_def)
qed

lemma digit_char_in: "d < 10 \<Longrightarrow> digit_char d \<in> set ''0123456789''"
proof -
  assume "d < 10"
  then have "d \<in> {0, 1, 2, 3, 4, 5, 6, 7, 8, 9}" by auto
  then show ?thesis
    by (auto simp: digit_char_def)
qed

lemma str_nat_digit: "k < 10 \<Longrightarrow> str_nat k = [digit_char k]"
  by (simp add: str_nat.simps)

lemma str_nat_step: "10 \<le> k \<Longrightarrow> str_nat k = str_nat (k div 10) @ [digit_char (k mod 10)]"
  by (subst str_nat.simps) simp

lemma str_nat_not_Nil: "str_nat k \<noteq> []"
  by (subst str_nat.simps) simp

lemma set_str_nat: "set (str_nat k) \<subseteq> set ''0123456789''"
proof (induction k rule: str_nat.induct)
  case (1 k)
  show ?case
  proof (cases "k < 10")
    case True
    then show ?thesis using digit_char_in [of k] by (simp add: str_nat_digit)
  next
    case False
    have "k mod 10 < 10" by simp
    then have "digit_char (k mod 10) \<in> set ''0123456789''" by (rule digit_char_in)
    with False "1.IH" show ?thesis by (simp add: str_nat_step)
  qed
qed

lemma digits_from_str_nat:
  "digits_from seen acc (str_nat k @ rest) = digits_from True (acc * 10 ^ length (str_nat k) + k) rest"
proof (induction k arbitrary: seen acc rest rule: str_nat.induct)
  case (1 k)
  show ?case
  proof (cases "k < 10")
    case True
    then show ?thesis by (simp add: str_nat_digit digit_value_char mult.commute)
  next
    case False
    then have step: "str_nat k = str_nat (k div 10) @ [digit_char (k mod 10)]"
      by (simp add: str_nat_step)
    have "digits_from seen acc (str_nat k @ rest)
        = digits_from seen acc (str_nat (k div 10) @ (digit_char (k mod 10) # rest))"
      by (simp add: step)
    also have "\<dots> = digits_from True (acc * 10 ^ length (str_nat (k div 10)) + k div 10)
                       (digit_char (k mod 10) # rest)"
      using "1.IH" [OF False] by simp
    also have "\<dots> = digits_from True (acc * 10 ^ length (str_nat k) + k) rest"
      by (simp add: step digit_value_char algebra_simps)
    finally show ?thesis .
  qed
qed

lemma digits_from_str_nat_all: "digits_from False 0 (str_nat k) = Some k"
  using digits_from_str_nat [of False 0 k "[]"] by simp

lemma digit_not_space: "c \<in> set ''0123456789'' \<Longrightarrow> \<not> is_space c"
  by (auto simp: is_space_def)

lemma strip_id: "s \<noteq> [] \<Longrightarrow> \<not> is_space (hd s) \<Longrightarrow> \<not> is_space (last s) \<Longrightarrow> strip s = s"
proof -
  assume ne: "s \<noteq> []" and h: "\<not> is_space (hd s)" and l: "\<not> is_space (last s)"
  from ne h have "dropWhile is_space s = s" by (cases s) simp_all
  moreover from ne l have "dropWhile is_space (rev s) = rev s"
    by (cases "rev s") (simp_all add: last_rev [symmetric] del: last_rev)
  ultimately show ?thesis by (simp add: strip_def)
qed

lemma strip_str_nat: "strip (str_nat k) = str_nat k"
proof (rule strip_id)
  show "str_nat k \<noteq> []" by (rule str_nat_not_Nil)
  have "hd (str_nat k) \<in> set (str_nat k)" by (simp add: str_nat_not_Nil)
  then show "\<not> is_space (hd (str_nat k))" using set_str_nat digit_not_space by blast
  have "last (str_nat k) \<in> set (str_nat k)" by (simp add: str_nat_not_Nil)
  then show "\<not> is_space (last (str_nat k))" using set_str_nat digit_not_space by blast
qed

lemma strip_minus_str_nat: "strip (CHR ''-'' # str_nat k) = CHR ''-'' # str_nat k"
proof (rule strip_id)
  show "CHR ''-'' # str_nat k \<noteq> []" by simp
  show "\<not> is_space (hd (CHR ''-'' # str_nat k))" by (simp add: is_space_def)
  have "last (str_nat k) \<in> set (str_nat k)" by (simp add: str_nat_not_Nil)
  then have "\<not> is_space (last (str_nat k))" using set_str_nat digit_not_space by blast
  then show "\<not> is_space (last (CHR ''-'' # str_nat k))" by (simp add: str_nat_not_Nil)
qed

lemma int_of_str_str_int: "int_of_str (str_int i) = Some i"
proof (cases "i < 0")
  case True
  then show ?thesis
    by (simp add: str_int_def int_of_str_def strip_minus_str_nat digits_from_str_nat_all)
next
  case False
  obtain c cs where cs: "str_nat (nat i) = c # cs"
    using str_nat_not_Nil [of "nat i"] by (cases "str_nat (nat i)") auto
  then have "c \<in> set (str_nat (nat i))" by simp
  then have "c \<in> set ''0123456789''" using set_str_nat by blast
  then have "c \<noteq> CHR ''-''" and "c \<noteq> CHR ''+''" by auto
  moreover have "digits_from False 0 (c # cs) = Some (nat i)"
    using digits_from_str_nat_all [of "nat i"] by (simp add: cs)
  ultimately show ?thesis using False
    by (simp add: str_int_def int_of_str_def strip_str_nat [of "nat i", unfolded cs] cs)
qed

lemma decimal_string_str_int: "decimal_string (JStr (str_int i))"
  by (simp add: decimal_string_def int_of_str_str_int)

subsection \<open>Failures and results of the wrapper\<close>

lemma json_loads_error: "json_loads s = Inl e \<Longrightarrow> e = JSONDecodeError"
  by (cases s) auto

lemma py_getitem_error: "py_getitem v k = Inl e \<Longrightarrow> e = KeyError k \<or> e = TypeError"
  by (cases v) (auto split: option.splits)

lemma py_int_error: "py_int v = Inl e \<Longrightarrow> e = ValueError \<or> e = OverflowError \<or> e = TypeError"
  by (induction v rule: py_int.induct) (auto split: option.splits)

lemma and_then_Inl: "and_then r f = Inl e \<Longrightarrow> r = Inl e \<or> (\<exists>v. r = Inr v \<and> f v = Inl e)"
  by (cases r) auto

lemma and_then_Inr: "and_then r f = Inr y \<Longrightarrow> \<exists>v. r = Inr v \<and> f v = Inr y"
  by (cases r) auto

lemma load_encrypted_number_key:
  "load_encrypted_number pk s = Inr x \<Longrightarrow> en_public_key x = pk"
  unfolding load_encrypted_number_def by (auto dest!: and_then_Inr)

lemma load_encrypted_number_error:
  "load_encrypted_number pk s \<noteq> Inl KeyMismatchError"
proof
  assume "load_encrypted_number pk s = Inl KeyMismatchError"
  then show False
    unfolding load_encrypted_number_def
    by (auto dest!: and_then_Inl dest: json_loads_error py_getitem_error py_int_error)
qed

lemma enc_add_same_key:
  "en_public_key a = en_public_key b \<Longrightarrow> enc_add sch a b \<noteq> Inl KeyMismatchError"
  by (auto simp: enc_add_def Let_def split: json.splits)

lemma enc_add_key: "enc_add sch a b = Inr c \<Longrightarrow> en_public_key c = en_public_key a"
  by (auto simp: enc_add_def Let_def split: json.splits if_splits)

lemma add_remaining_no_mismatch:
  "en_public_key result = pk \<Longrightarrow> add_remaining sch pk result rest \<noteq> Inl KeyMismatchError"
proof (induction rest arbitrary: result)
  case Nil
  then show ?case by simp
next
  case (Cons s rest)
  show ?case
  proof (cases "load_encrypted_number pk s")
    case (Inl e)
    then show ?thesis using load_encrypted_number_error [of pk s] by auto
  next
    case (Inr x)
    then have kx: "en_public_key x = pk" by (rule load_encrypted_number_key)
    show ?thesis
    proof (cases "enc_add sch result x")
      case (Inl e)
      then show ?thesis using enc_add_same_key [of result x sch] Cons.prems kx Inr by auto
    next
      case r: (Inr r)
      then have "en_public_key r = pk" using enc_add_key Cons.prems by metis
      then show ?thesis using Cons.IH Inr r by simp
    qed
  qed
qed

lemma add_encrypted_numbers_no_mismatch:
  "add_encrypted_numbers sch pk nums \<noteq> Inl KeyMismatchError"
proof (cases nums)
  case Nil
  then show ?thesis by (simp add: add_encrypted_numbers_def)
next
  case (Cons s rest)
  show ?thesis
  proof (cases "load_encrypted_number pk s")
    case (Inl e)
    then show ?thesis using load_encrypted_number_error [of pk s] Cons
      by (auto simp: add_encrypted_numbers_def)
  next
    case (Inr x)
    then have "en_public_key x = pk" by (rule load_encrypted_number_key)
    then have "add_remaining sch pk x rest \<noteq> Inl KeyMismatchError"
      by (rule add_remaining_no_mismatch)
    then show ?thesis using Cons Inr
      by (cases "add_remaining sch pk x rest") (auto simp: add_encrypted_numbers_def)
  qed
qed

lemma load_dump:
  "load_encrypted_number pk (dump_encrypted_number x) = Inr (x\<lparr>en_public_key := pk\<rparr>)"
  by (simp add: load_encrypted_number_def dump_encrypted_number_def json_dumps_def
      int_of_str_str_int)

lemma enc_add_aligned:
  "en_public_key a = pk \<Longrightarrow> en_public_key b = pk \<Longrightarrow> pk_n pk \<noteq> 0 \<Longrightarrow>
   en_exponent a = JInt e \<Longrightarrow> en_exponent b = JInt e \<Longrightarrow>
   enc_add sch a b = Inr \<lparr>en_public_key = pk,
      en_ciphertext = (en_ciphertext a mod nsquare pk) * (en_ciphertext b mod nsquare pk) mod nsquare pk,
      en_exponent = JInt e\<rparr>"
  by (simp add: enc_add_def rescale_def powmod_def)

lemma add_remaining_aligned:
  "en_public_key result = pk \<Longrightarrow> en_exponent result = JInt e \<Longrightarrow> pk_n pk \<noteq> 0 \<Longrightarrow>
   \<forall>s \<in> set rest. \<exists>x. s = dump_encrypted_number x \<and> en_exponent x = JInt e \<Longrightarrow>
   \<exists>c. add_remaining sch pk result rest =
        Inr \<lparr>en_public_key = pk, en_ciphertext = c, en_exponent = JInt e\<rparr>"
proof (induction rest arbitrary: result)
  case Nil
  then have "result = \<lparr>en_public_key = pk, en_ciphertext = en_ciphertext result, en_exponent = JInt e\<rparr>"
    by (cases result) simp
  then show ?case by (metis add_remaining.simps(1))
next
  case (Cons s rest)
  then obtain x where x: "s = dump_encrypted_number x" "en_exponent x = JInt e" by auto
  let ?x = "x\<lparr>en_public_key := pk\<rparr>"
  let ?r = "\<lparr>en_public_key = pk,
      en_ciphertext = (en_ciphertext result mod nsquare pk) * (en_ciphertext ?x mod nsquare pk) mod nsquare pk,
      en_exponent = JInt e\<rparr>"
  have "enc_add sch result ?x = Inr ?r"
    using Cons.prems x by (intro enc_add_aligned) simp_all
  moreover have "\<exists>c. add_remaining sch pk ?r rest =
        Inr \<lparr>en_public_key = pk, en_ciphertext = c, en_exponent = JInt e\<rparr>"
    using Cons.prems by (intro Cons.IH) simp_all
  ultimately show ?case by (simp add: x load_dump)
qed

lemma enc_mul_error: "enc_mul sch a x \<noteq> Inl KeyMismatchError"
  by (auto simp: enc_mul_def invert_def Let_def split: option.splits json.splits if_splits
      dest!: and_then_Inl)

lemma multiply_no_mismatch: "multiply_encrypted_by_scalar sch pk s x \<noteq> Inl KeyMismatchError"
proof
  assume "multiply_encrypted_by_scalar sch pk s x = Inl KeyMismatchError"
  then show False
    unfolding multiply_encrypted_by_scalar_def
    using load_encrypted_number_error enc_mul_error
    by (auto dest!: and_then_Inl)
qed

lemma add_encrypted_numbers_aligned:
  assumes "nums \<noteq> []" and "pk_n pk \<noteq> 0"
    and "\<forall>s \<in> set nums. \<exists>x. s = dump_encrypted_number x \<and> en_exponent x = JInt e"
  shows "\<exists>c. add_encrypted_numbers sch pk nums =
     Inr (dump_encrypted_number \<lparr>en_public_key = pk, en_ciphertext = c, en_exponent = JInt e\<rparr>)"
proof -
  from assms(1) obtain s rest where nums: "nums = s # rest" by (cases nums) auto
  with assms(3) obtain x where x: "s = dump_encrypted_number x" "en_exponent x = JInt e" by auto
  have "\<exists>c. add_remaining sch pk (x\<lparr>en_public_key := pk\<rparr>) rest =
        Inr \<lparr>en_public_key = pk, en_ciphertext = c, en_exponent = JInt e\<rparr>"
    using assms(2,3) x by (intro add_remaining_aligned) (simp_all add: nums)
  then show ?thesis
    by (auto simp: add_encrypted_numbers_def nums x load_dump)
qed

subsection \<open>Primes and the theorem of Fermat\<close>









subsection \<open>Ciphertexts that carry a mantissa\<close>























lemma encrypt_succeeds:
  assumes "1 < pk_n pk" "encode sch pk x = Some (m, e)"
  shows "\<exists>y. encrypt sch pk x r = Inr y"
  using assms by (simp add: encrypt_def Let_def)


subsection \<open>Serialized ciphertexts through the wrapper\<close>









lemma integer_encode: "encode integer_encoding pk (Finite (of_int i)) = Some (i, 0)"
  by (simp add: integer_encoding_def)




section \<open>The claims\<close>

subsection \<open>C1: the sum of two encryptions\<close>



subsection \<open>C2: decrypting what was encrypted\<close>



subsection \<open>C3: the product of an encryption and a scalar\<close>



subsection \<open>C4: operands encrypted under different keys\<close>

text \<open>
  C4, as stated, fails. The number 2 is encrypted under the key \<open>n = 15\<close> and the number 3
  under the independent key \<open>n = 77\<close>; \<^verbatim>\<open>add_encrypted_numbers\<close>, called with the first
  key, does not fail: it returns the ciphertext 19, which the private key \<open>(3, 5)\<close> of the
  first key decrypts to \<open>-3\<close>.
\<close>

theorem cross_key_add_counterexample:
  "encrypt_number integer_encoding \<lparr>pk_n = 15\<rparr> (Finite 2) 2
     = Inr (Doc (JDict [(''ciphertext'', JStr ''158''), (''exponent'', JInt 0)])) \<and>
   encrypt_number integer_encoding \<lparr>pk_n = 77\<rparr> (Finite 3) 3
     = Inr (Doc (JDict [(''ciphertext'', JStr ''2693''), (''exponent'', JInt 0)])) \<and>
   add_encrypted_numbers integer_encoding \<lparr>pk_n = 15\<rparr>
     [Doc (JDict [(''ciphertext'', JStr ''158''), (''exponent'', JInt 0)]),
      Doc (JDict [(''ciphertext'', JStr ''2693''), (''exponent'', JInt 0)])]
     = Inr (Doc (JDict [(''ciphertext'', JStr ''19''), (''exponent'', JInt 0)])) \<and>
   decrypt_number integer_encoding \<lparr>sk_public_key = \<lparr>pk_n = 15\<rparr>, sk_p = 3, sk_q = 5\<rparr>
     (Doc (JDict [(''ciphertext'', JStr ''19''), (''exponent'', JInt 0)])) = Inr (Finite (- 3))"
  by (simp add: encrypt_number_def encrypt_def integer_encoding_def raw_encrypt_def pk_g_def
      nsquare_def dump_encrypted_number_def json_dumps_def str_int_def str_nat_digit str_nat_step
      digit_char_def add_encrypted_numbers_def load_encrypted_number_def int_of_str_def strip_def
      is_space_def digit_value_def enc_add_def rescale_def powmod_def decrypt_number_def
      decrypt_def invert_def L_function_def bezw_non_0 Let_def gcd_non_0_int lcm_int_def)

text \<open>
  C4, amended: the serialized ciphertext carries no key, and \<^verbatim>\<open>add_encrypted_numbers\<close> and
  \<^verbatim>\<open>multiply_encrypted_by_scalar\<close> rebuild every operand under the one public key the
  caller passes. So neither ever fails with \<open>KeyMismatchError\<close>, whatever keys the operands
  were encrypted under; and on a non-empty list of serialized ciphertexts of any keys that
  share an integer exponent, the addition succeeds and returns a ciphertext under the
  caller's key with that exponent.
\<close>

theorem homomorphic_ops_ignore_key_origin:
  "add_encrypted_numbers sch pk nums \<noteq> Inl KeyMismatchError \<and>
   multiply_encrypted_by_scalar sch pk s k \<noteq> Inl KeyMismatchError \<and>
   (nums \<noteq> [] \<longrightarrow> pk_n pk \<noteq> 0 \<longrightarrow>
    (\<forall>t \<in> set nums. \<exists>x. t = dump_encrypted_number x \<and> en_exponent x = JInt e) \<longrightarrow>
    (\<exists>c. add_encrypted_numbers sch pk nums =
       Inr (dump_encrypted_number \<lparr>en_public_key = pk, en_ciphertext = c, en_exponent = JInt e\<rparr>)))"
  using add_encrypted_numbers_no_mismatch multiply_no_mismatch add_encrypted_numbers_aligned
  by blast

theorem homomorphic_ops_ignore_key_origin_witness:
  "pk_n \<lparr>pk_n = 15\<rparr> \<noteq> 0 \<and>
   (\<exists>c. add_encrypted_numbers integer_encoding \<lparr>pk_n = 15\<rparr>
          [dump_encrypted_number \<lparr>en_public_key = \<lparr>pk_n = 15\<rparr>, en_ciphertext = 158, en_exponent = JInt 0\<rparr>,
           dump_encrypted_number \<lparr>en_public_key = \<lparr>pk_n = 77\<rparr>, en_ciphertext = 2693, en_exponent = JInt 0\<rparr>] =
       Inr (dump_encrypted_number \<lparr>en_public_key = \<lparr>pk_n = 15\<rparr>, en_ciphertext = c, en_exponent = JInt 0\<rparr>))"
proof -
  let ?a = "\<lparr>en_public_key = \<lparr>pk_n = 15\<rparr>, en_ciphertext = 158, en_exponent = JInt 0\<rparr>"
  let ?b = "\<lparr>en_public_key = \<lparr>pk_n = 77\<rparr>, en_ciphertext = 2693, en_exponent = JInt 0\<rparr>"
  let ?nums = "[dump_encrypted_number ?a, dump_encrypted_number ?b]"
  have ne: "?nums \<noteq> []" by simp
  have n0: "pk_n \<lparr>pk_n = 15\<rparr> \<noteq> 0" by simp
  have "\<exists>x. dump_encrypted_number ?a = dump_encrypted_number x \<and> en_exponent x = JInt 0"
    by (rule exI [of _ ?a]) simp
  moreover have "\<exists>x. dump_encrypted_number ?b = dump_encrypted_number x \<and> en_exponent x = JInt 0"
    by (rule exI [of _ ?b]) simp
  ultimately have all: "\<forall>t \<in> set ?nums. \<exists>x. t = dump_encrypted_number x \<and> en_exponent x = JInt 0"
    by simp
  from homomorphic_ops_ignore_key_origin [of integer_encoding "\<lparr>pk_n = 15\<rparr>" ?nums NotJSON NaN 0]
    ne n0 all
  show ?thesis by blast
qed

subsection \<open>C5: addition of no operands\<close>

text \<open>
  C5, as stated, fails. On the empty list \<^verbatim>\<open>add_encrypted_numbers\<close> fails, but with the
  \<^verbatim>\<open>IndexError\<close> of the subscript \<^verbatim>\<open>encrypted_nums[0]\<close>, not with an error of its own for
  the empty operand; the route \<^verbatim>\<open>/compute\<close> reports it as a server fault, status 500.
\<close>

theorem add_empty_counterexample:
  "add_encrypted_numbers integer_encoding \<lparr>pk_n = 15\<rparr> [] = Inl IndexError \<and>
   compute_on_encrypted integer_encoding
     \<lparr>encrypted_numbers = [], public_key = serialize_public_key \<lparr>pk_n = 15\<rparr>,
      operation = ''add'', multiplier = None\<rparr>
   = Inl (HTTPException 500 ''Computation failed: '' (Some IndexError))"
  by (simp add: add_encrypted_numbers_def compute_on_encrypted_def deserialize_public_key_def
      serialize_public_key_def json_dumps_def lower_def lower_char_def)

text \<open>
  C5, amended: for every public key, \<^verbatim>\<open>add_encrypted_numbers\<close> on the empty list fails with
  \<^verbatim>\<open>IndexError\<close>; a \<^verbatim>\<open>/compute\<close> request whose public key decodes, whose operation is
  \<^verbatim>\<open>add\<close> or \<^verbatim>\<open>sum\<close> in any letter case and whose list of encrypted numbers is empty is
  answered with status 500 and the detail \<^verbatim>\<open>Computation failed: \<close> followed by the text of
  that \<^verbatim>\<open>IndexError\<close>.
\<close>

theorem add_empty_index_error:
  "add_encrypted_numbers sch pk [] = Inl IndexError \<and>
   (deserialize_public_key (public_key request) = Inr pk \<longrightarrow>
    lower (operation request) \<in> {''add'', ''sum''} \<longrightarrow>
    encrypted_numbers request = [] \<longrightarrow>
    compute_on_encrypted sch request = Inl (HTTPException 500 ''Computation failed: '' (Some IndexError)))"
  by (auto simp: add_encrypted_numbers_def compute_on_encrypted_def)

theorem add_empty_index_error_witness:
  "deserialize_public_key (Doc (JDict [(''n'', JInt 77)])) = Inr \<lparr>pk_n = 77\<rparr> \<and>
   lower ''SUM'' \<in> {''add'', ''sum''} \<and>
   compute_on_encrypted integer_encoding
     \<lparr>encrypted_numbers = [], public_key = Doc (JDict [(''n'', JInt 77)]),
      operation = ''SUM'', multiplier = None\<rparr>
   = Inl (HTTPException 500 ''Computation failed: '' (Some IndexError))"
proof -
  let ?r = "\<lparr>encrypted_numbers = [], public_key = Doc (JDict [(''n'', JInt 77)]),
      operation = ''SUM'', multiplier = None\<rparr>"
  have h1: "deserialize_public_key (public_key ?r) = Inr \<lparr>pk_n = 77\<rparr>"
    by (simp add: deserialize_public_key_def)
  have h2: "lower (operation ?r) \<in> {''add'', ''sum''}"
    by (simp add: lower_def lower_char_def)
  have h3: "encrypted_numbers ?r = []" by simp
  from add_empty_index_error [of integer_encoding "\<lparr>pk_n = 77\<rparr>" ?r] h1 h2 h3
  have "compute_on_encrypted integer_encoding ?r
      = Inl (HTTPException 500 ''Computation failed: '' (Some IndexError))"
    by blast
  then show ?thesis
    by (simp add: deserialize_public_key_def lower_def lower_char_def)
qed

subsection \<open>C6: decoding what was encoded\<close>

text \<open>
  C6: deserializing a serialized public key gives the key back, with the same \<open>n\<close>;
  deserializing a serialized private key under a public key whose \<open>n\<close> is \<open>p * q\<close>, for
  \<open>p \<noteq> q\<close>, gives a private key with the same \<open>p\<close> and \<open>q\<close>; rebuilding an encrypted
  number from its serialized form \<^verbatim>\<open>{ciphertext, exponent}\<close> gives the same ciphertext and
  exponent, under the public key supplied; and what \<^verbatim>\<open>encrypt_number\<close> returns is rebuilt
  to the very number the library encrypted.
\<close>

theorem codec_round_trip:
  "deserialize_public_key (serialize_public_key pk) = Inr pk \<and>
   (sk_p sk * sk_q sk = pk_n pk \<longrightarrow> sk_p sk \<noteq> sk_q sk \<longrightarrow>
      deserialize_private_key (serialize_private_key sk) pk = Inr (sk\<lparr>sk_public_key := pk\<rparr>)) \<and>
   load_encrypted_number pk (dump_encrypted_number x) = Inr (x\<lparr>en_public_key := pk\<rparr>) \<and>
   (encrypt_number sch pk v r = Inr t \<longrightarrow> load_encrypted_number pk t = encrypt sch pk v r)"
proof (intro conjI impI)
  show "deserialize_public_key (serialize_public_key pk) = Inr pk"
    by (simp add: deserialize_public_key_def serialize_public_key_def json_dumps_def)
  show "load_encrypted_number pk (dump_encrypted_number x) = Inr (x\<lparr>en_public_key := pk\<rparr>)"
    by (rule load_dump)
next
  assume "sk_p sk * sk_q sk = pk_n pk" and "sk_p sk \<noteq> sk_q sk"
  then show "deserialize_private_key (serialize_private_key sk) pk = Inr (sk\<lparr>sk_public_key := pk\<rparr>)"
    by (simp add: deserialize_private_key_def serialize_private_key_def json_dumps_def
        new_private_key_def)
next
  assume "encrypt_number sch pk v r = Inr t"
  then obtain y where y: "encrypt sch pk v r = Inr y" "t = dump_encrypted_number y"
    unfolding encrypt_number_def by (auto dest!: and_then_Inr)
  then have "en_public_key y = pk"
    by (auto simp: encrypt_def Let_def split: option.splits if_splits)
  then show "load_encrypted_number pk t = encrypt sch pk v r"
    using y by (simp add: load_dump)
qed

theorem codec_round_trip_witness:
  "(3 :: int) * 5 = pk_n \<lparr>pk_n = 15\<rparr> \<and> (3 :: int) \<noteq> 5 \<and>
   deserialize_private_key (serialize_private_key \<lparr>sk_public_key = \<lparr>pk_n = 15\<rparr>, sk_p = 3, sk_q = 5\<rparr>)
     \<lparr>pk_n = 15\<rparr>
     = Inr \<lparr>sk_public_key = \<lparr>pk_n = 15\<rparr>, sk_p = 3, sk_q = 5\<rparr> \<and>
   encrypt_number integer_encoding \<lparr>pk_n = 15\<rparr> (Finite 2) 2
     = Inr (Doc (JDict [(''ciphertext'', JStr ''158''), (''exponent'', JInt 0)])) \<and>
   load_encrypted_number \<lparr>pk_n = 15\<rparr>
     (Doc (JDict [(''ciphertext'', JStr ''158''), (''exponent'', JInt 0)]))
     = encrypt integer_encoding \<lparr>pk_n = 15\<rparr> (Finite 2) 2"
proof -
  have enc: "encrypt_number integer_encoding \<lparr>pk_n = 15\<rparr> (Finite 2) 2
     = Inr (Doc (JDict [(''ciphertext'', JStr ''158''), (''exponent'', JInt 0)]))"
    by (simp add: encrypt_number_def encrypt_def integer_encoding_def raw_encrypt_def pk_g_def
      nsquare_def dump_encrypted_number_def json_dumps_def str_int_def str_nat_digit str_nat_step
      digit_char_def)
  from codec_round_trip [of "\<lparr>pk_n = 15\<rparr>" "\<lparr>sk_public_key = \<lparr>pk_n = 15\<rparr>, sk_p = 3, sk_q = 5\<rparr>"
      "\<lparr>en_public_key = \<lparr>pk_n = 15\<rparr>, en_ciphertext = 158, en_exponent = JInt 0\<rparr>"
      integer_encoding "Finite 2" 2 "Doc (JDict [(''ciphertext'', JStr ''158''), (''exponent'', JInt 0)])"] enc
  show ?thesis by simp
qed

subsection \<open>C7: how the big integers travel\<close>

text \<open>
  C7, as stated, fails. The serialized public key of \<open>n = 15\<close> carries \<open>n\<close> as the JSON
  number 15, which is not a decimal string.
\<close>

theorem public_key_wire_counterexample:
  "wire_field (serialize_public_key \<lparr>pk_n = 15\<rparr>) ''n'' = Some (JInt 15) \<and> \<not> decimal_string (JInt 15)"
  by (simp add: wire_field_def serialize_public_key_def json_dumps_def decimal_string_def)

text \<open>
  C7, amended: the serialized public key carries \<open>n\<close>, and the serialized private key
  carries \<open>p\<close> and \<open>q\<close>, as JSON integer numbers of unbounded size; the serialized
  encrypted number carries its ciphertext as a decimal string and its exponent as the value
  of the \<^verbatim>\<open>exponent\<close> attribute, which is a JSON integer in what \<^verbatim>\<open>encrypt_number\<close> returns.
\<close>

theorem wire_forms:
  "wire_field (serialize_public_key pk) ''n'' = Some (JInt (pk_n pk)) \<and>
   wire_field (serialize_private_key sk) ''p'' = Some (JInt (sk_p sk)) \<and>
   wire_field (serialize_private_key sk) ''q'' = Some (JInt (sk_q sk)) \<and>
   wire_field (dump_encrypted_number x) ''ciphertext'' = Some (JStr (str_int (en_ciphertext x))) \<and>
   decimal_string (JStr (str_int (en_ciphertext x))) \<and>
   wire_field (dump_encrypted_number x) ''exponent'' = Some (en_exponent x) \<and>
   (encrypt_number sch pk v r = Inr t \<longrightarrow>
      (\<exists>c e. wire_field t ''ciphertext'' = Some (JStr (str_int c)) \<and>
             wire_field t ''exponent'' = Some (JInt e)))"
proof (intro conjI impI)
  assume "encrypt_number sch pk v r = Inr t"
  then obtain y where y: "encrypt sch pk v r = Inr y" "t = dump_encrypted_number y"
    unfolding encrypt_number_def by (auto dest!: and_then_Inr)
  then obtain e where "en_exponent y = JInt e"
    by (auto simp: encrypt_def Let_def split: option.splits if_splits)
  then show "\<exists>c e. wire_field t ''ciphertext'' = Some (JStr (str_int c)) \<and>
             wire_field t ''exponent'' = Some (JInt e)"
    using y by (auto simp: wire_field_def dump_encrypted_number_def json_dumps_def)
qed (simp_all add: wire_field_def serialize_public_key_def serialize_private_key_def
      dump_encrypted_number_def json_dumps_def decimal_string_str_int)

theorem wire_forms_witness:
  "encrypt_number integer_encoding \<lparr>pk_n = 15\<rparr> (Finite 2) 2
     = Inr (Doc (JDict [(''ciphertext'', JStr ''158''), (''exponent'', JInt 0)])) \<and>
   (\<exists>c e. wire_field (Doc (JDict [(''ciphertext'', JStr ''158''), (''exponent'', JInt 0)])) ''ciphertext''
             = Some (JStr (str_int c)) \<and>
          wire_field (Doc (JDict [(''ciphertext'', JStr ''158''), (''exponent'', JInt 0)])) ''exponent''
             = Some (JInt e))"
proof -
  have enc: "encrypt_number integer_encoding \<lparr>pk_n = 15\<rparr> (Finite 2) 2
     = Inr (Doc (JDict [(''ciphertext'', JStr ''158''), (''exponent'', JInt 0)]))"
    by (simp add: encrypt_number_def encrypt_def integer_encoding_def raw_encrypt_def pk_g_def
      nsquare_def dump_encrypted_number_def json_dumps_def str_int_def str_nat_digit str_nat_step
      digit_char_def)
  from wire_forms [of "\<lparr>pk_n = 15\<rparr>" "\<lparr>sk_public_key = \<lparr>pk_n = 15\<rparr>, sk_p = 3, sk_q = 5\<rparr>"
      "\<lparr>en_public_key = \<lparr>pk_n = 15\<rparr>, en_ciphertext = 158, en_exponent = JInt 0\<rparr>"
      integer_encoding "Finite 2" 2 "Doc (JDict [(''ciphertext'', JStr ''158''), (''exponent'', JInt 0)])"] enc
  show ?thesis by blast
qed

subsection \<open>C8: decoding malformed input\<close>

text \<open>
  C8, as stated, fails. A public key whose \<open>n\<close> is the string \<^verbatim>\<open>abc\<close> is rejected with the
  \<^verbatim>\<open>ValueError\<close> of \<^verbatim>\<open>int()\<close>, which does not name the field; text that is not JSON is
  rejected with the \<^verbatim>\<open>JSONDecodeError\<close> of the parser, and a JSON list with a
  \<^verbatim>\<open>TypeError\<close>. Each reaches the caller as it was raised.
\<close>

theorem decode_counterexample:
  "deserialize_public_key (Doc (JDict [(''n'', JStr ''abc'')])) = Inl ValueError \<and>
   deserialize_public_key NotJSON = Inl JSONDecodeError \<and>
   deserialize_public_key (Doc (JList [])) = Inl TypeError"
  by (simp add: deserialize_public_key_def int_of_str_def strip_def is_space_def digit_value_def)

text \<open>
  C8, amended: decoding malformed input fails with the exception of the step that failed.
  For \<^verbatim>\<open>deserialize_public_key\<close>, \<^verbatim>\<open>deserialize_private_key\<close> and \<^verbatim>\<open>decrypt_number\<close>: text
  that is not JSON raises \<^verbatim>\<open>JSONDecodeError\<close>; a JSON object without the field
  \<^verbatim>\<open>n\<close>, \<^verbatim>\<open>p\<close>, \<^verbatim>\<open>q\<close>, \<^verbatim>\<open>ciphertext\<close> or \<^verbatim>\<open>exponent\<close> raises a \<^verbatim>\<open>KeyError\<close> carrying
  the name of the first missing field, the fields being read in that order; an ASCII string
  that \<^verbatim>\<open>int()\<close> does not read as an integer in base 10, under \<^verbatim>\<open>n\<close>, \<^verbatim>\<open>p\<close>, \<^verbatim>\<open>q\<close> or
  \<^verbatim>\<open>ciphertext\<close>, raises \<^verbatim>\<open>ValueError\<close>. Such a string is, for one, a numeral preceded by
  the control character \<^verbatim>\<open>0x1C\<close>, which is no whitespace for \<^verbatim>\<open>int()\<close>.
\<close>

theorem decode_failures:
  "deserialize_public_key NotJSON = Inl JSONDecodeError \<and>
   deserialize_private_key NotJSON pk = Inl JSONDecodeError \<and>
   decrypt_number sch sk NotJSON = Inl JSONDecodeError \<and>
   (map_of kvs ''n'' = None \<longrightarrow>
      deserialize_public_key (Doc (JDict kvs)) = Inl (KeyError ''n'')) \<and>
   (map_of kvs ''n'' = Some (JStr s) \<longrightarrow> is_ascii s \<longrightarrow> int_of_str s = None \<longrightarrow>
      deserialize_public_key (Doc (JDict kvs)) = Inl ValueError) \<and>
   (map_of kvs ''p'' = None \<longrightarrow>
      deserialize_private_key (Doc (JDict kvs)) pk = Inl (KeyError ''p'')) \<and>
   (map_of kvs ''p'' = Some (JStr s) \<longrightarrow> is_ascii s \<longrightarrow> int_of_str s = None \<longrightarrow>
      deserialize_private_key (Doc (JDict kvs)) pk = Inl ValueError) \<and>
   (map_of kvs ''p'' = Some vp \<longrightarrow> py_int vp = Inr p \<longrightarrow> map_of kvs ''q'' = None \<longrightarrow>
      deserialize_private_key (Doc (JDict kvs)) pk = Inl (KeyError ''q'')) \<and>
   (map_of kvs ''p'' = Some vp \<longrightarrow> py_int vp = Inr p \<longrightarrow>
    map_of kvs ''q'' = Some (JStr s) \<longrightarrow> is_ascii s \<longrightarrow> int_of_str s = None \<longrightarrow>
      deserialize_private_key (Doc (JDict kvs)) pk = Inl ValueError) \<and>
   (map_of kvs ''ciphertext'' = None \<longrightarrow>
      decrypt_number sch sk (Doc (JDict kvs)) = Inl (KeyError ''ciphertext'')) \<and>
   (map_of kvs ''ciphertext'' = Some (JStr s) \<longrightarrow> is_ascii s \<longrightarrow> int_of_str s = None \<longrightarrow>
      decrypt_number sch sk (Doc (JDict kvs)) = Inl ValueError) \<and>
   (map_of kvs ''ciphertext'' = Some vc \<longrightarrow> py_int vc = Inr c \<longrightarrow> map_of kvs ''exponent'' = None \<longrightarrow>
      decrypt_number sch sk (Doc (JDict kvs)) = Inl (KeyError ''exponent''))"
  by (simp add: deserialize_public_key_def deserialize_private_key_def decrypt_number_def
      load_encrypted_number_def)

theorem decode_failures_witness:
  "map_of ([] :: (string \<times> json) list) ''n'' = None \<and>
   deserialize_public_key (Doc (JDict [])) = Inl (KeyError ''n'') \<and>
   map_of ([] :: (string \<times> json) list) ''p'' = None \<and>
   deserialize_private_key (Doc (JDict [])) \<lparr>pk_n = 15\<rparr> = Inl (KeyError ''p'') \<and>
   map_of ([] :: (string \<times> json) list) ''ciphertext'' = None \<and>
   decrypt_number integer_encoding \<lparr>sk_public_key = \<lparr>pk_n = 15\<rparr>, sk_p = 3, sk_q = 5\<rparr> (Doc (JDict []))
     = Inl (KeyError ''ciphertext'') \<and>
   is_ascii ''abc'' \<and> int_of_str ''abc'' = None \<and>
   deserialize_public_key (Doc (JDict [(''n'', JStr ''abc''), (''p'', JStr ''abc''), (''ciphertext'', JStr ''abc'')]))
     = Inl ValueError \<and>
   deserialize_private_key (Doc (JDict [(''n'', JStr ''abc''), (''p'', JStr ''abc''), (''ciphertext'', JStr ''abc'')]))
     \<lparr>pk_n = 15\<rparr> = Inl ValueError \<and>
   decrypt_number integer_encoding \<lparr>sk_public_key = \<lparr>pk_n = 15\<rparr>, sk_p = 3, sk_q = 5\<rparr>
     (Doc (JDict [(''n'', JStr ''abc''), (''p'', JStr ''abc''), (''ciphertext'', JStr ''abc'')]))
     = Inl ValueError \<and>
   is_ascii (CHR 0x1C # ''15'') \<and> int_of_str (CHR 0x1C # ''15'') = None \<and>
   deserialize_public_key (Doc (JDict [(''n'', JStr (CHR 0x1C # ''15''))])) = Inl ValueError \<and>
   py_int (JInt 3) = Inr 3 \<and> py_int (JStr ''19'') = Inr 19 \<and>
   deserialize_private_key (Doc (JDict [(''p'', JInt 3), (''ciphertext'', JStr ''19'')])) \<lparr>pk_n = 15\<rparr>
     = Inl (KeyError ''q'') \<and>
   decrypt_number integer_encoding \<lparr>sk_public_key = \<lparr>pk_n = 15\<rparr>, sk_p = 3, sk_q = 5\<rparr>
     (Doc (JDict [(''p'', JInt 3), (''ciphertext'', JStr ''19'')])) = Inl (KeyError ''exponent'') \<and>
   deserialize_private_key (Doc (JDict [(''p'', JInt 3), (''q'', JStr ''abc'')])) \<lparr>pk_n = 15\<rparr>
     = Inl ValueError"
proof -
  let ?sk = "\<lparr>sk_public_key = \<lparr>pk_n = 15\<rparr>, sk_p = 3, sk_q = 5\<rparr>"
  let ?pk = "\<lparr>pk_n = 15\<rparr>"
  have abc: "int_of_str ''abc'' = None" "is_ascii ''abc''"
    by (simp_all add: int_of_str_def strip_def is_space_def digit_value_def is_ascii_def)
  have fs: "int_of_str (CHR 0x1C # ''15'') = None" "is_ascii (CHR 0x1C # ''15'')"
    by (simp_all add: int_of_str_def strip_def is_space_def digit_value_def is_ascii_def)
  have n19: "py_int (JStr ''19'') = Inr 19"
    by (simp add: int_of_str_def strip_def is_space_def digit_value_def)
  note missing = decode_failures [of ?pk integer_encoding ?sk "[]" "''abc''" "JInt 3" 3 "JStr ''19''" 19]
  note bad = decode_failures [of ?pk integer_encoding ?sk
      "[(''n'', JStr ''abc''), (''p'', JStr ''abc''), (''ciphertext'', JStr ''abc'')]"
      "''abc''" "JInt 3" 3 "JStr ''19''" 19]
  note sep = decode_failures [of ?pk integer_encoding ?sk
      "[(''n'', JStr (CHR 0x1C # ''15''))]" "CHR 0x1C # ''15''" "JInt 3" 3 "JStr ''19''" 19]
  note second = decode_failures [of ?pk integer_encoding ?sk
      "[(''p'', JInt 3), (''ciphertext'', JStr ''19'')]" "''abc''" "JInt 3" 3 "JStr ''19''" 19]
  note badq = decode_failures [of ?pk integer_encoding ?sk
      "[(''p'', JInt 3), (''q'', JStr ''abc'')]" "''abc''" "JInt 3" 3 "JStr ''19''" 19]
  from missing bad sep second badq abc fs n19 show ?thesis by simp
qed

subsection \<open>C9: caller errors of \<^verbatim>\<open>/compute\<close>\<close>

text \<open>
  C9, as stated, fails. The public key is deserialized before the operation is looked at:
  a request with an unknown operation, or with \<^verbatim>\<open>multiply\<close> and no multiplier, whose public
  key does not decode is answered with status 500, not 400.
\<close>

theorem compute_bad_key_counterexample:
  "compute_on_encrypted integer_encoding
     \<lparr>encrypted_numbers = [], public_key = NotJSON, operation = ''frobnicate'', multiplier = None\<rparr>
   = Inl (HTTPException 500 ''Computation failed: '' (Some JSONDecodeError)) \<and>
   compute_on_encrypted integer_encoding
     \<lparr>encrypted_numbers = [], public_key = Doc (JDict []), operation = ''multiply'', multiplier = None\<rparr>
   = Inl (HTTPException 500 ''Computation failed: '' (Some (KeyError ''n'')))"
  by (simp add: compute_on_encrypted_def deserialize_public_key_def)

text \<open>
  C9, amended: for every \<^verbatim>\<open>/compute\<close> request whose public key decodes, an operation that
  is, in lower case, none of \<^verbatim>\<open>add\<close>, \<^verbatim>\<open>sum\<close> and \<^verbatim>\<open>multiply\<close> is rejected with status 400
  and the detail \<^verbatim>\<open>Invalid operation. Use 'add', 'sum', or 'multiply'\<close>, and the operation
  \<^verbatim>\<open>multiply\<close> without a multiplier is rejected with status 400 and the detail
  \<^verbatim>\<open>Multiplier required for multiply operation\<close>; in both cases whatever the encrypted
  numbers are, none of them being read.
\<close>

theorem compute_caller_errors:
  "deserialize_public_key (public_key request) = Inr pk \<Longrightarrow>
   (lower (operation request) \<notin> {''add'', ''sum'', ''multiply''} \<longrightarrow>
      compute_on_encrypted sch request = Inl (HTTPException 400 invalid_operation_detail None)) \<and>
   (lower (operation request) = ''multiply'' \<longrightarrow> multiplier request = None \<longrightarrow>
      compute_on_encrypted sch request =
        Inl (HTTPException 400 ''Multiplier required for multiply operation'' None))"
  by (simp add: compute_on_encrypted_def)

theorem compute_caller_errors_witness:
  "deserialize_public_key (Doc (JDict [(''n'', JInt 15)])) = Inr \<lparr>pk_n = 15\<rparr> \<and>
   lower ''Divide'' \<notin> {''add'', ''sum'', ''multiply''} \<and>
   compute_on_encrypted integer_encoding
     \<lparr>encrypted_numbers = [NotJSON], public_key = Doc (JDict [(''n'', JInt 15)]),
      operation = ''Divide'', multiplier = None\<rparr>
   = Inl (HTTPException 400 invalid_operation_detail None) \<and>
   lower ''MULTIPLY'' = ''multiply'' \<and>
   compute_on_encrypted integer_encoding
     \<lparr>encrypted_numbers = [], public_key = Doc (JDict [(''n'', JInt 15)]),
      operation = ''MULTIPLY'', multiplier = None\<rparr>
   = Inl (HTTPException 400 ''Multiplier required for multiply operation'' None)"
proof -
  have pk: "deserialize_public_key (Doc (JDict [(''n'', JInt 15)])) = Inr \<lparr>pk_n = 15\<rparr>"
    by (simp add: deserialize_public_key_def)
  have l1: "lower ''Divide'' \<notin> {''add'', ''sum'', ''multiply''}"
    by (simp add: lower_def lower_char_def)
  have l2: "lower ''MULTIPLY'' = ''multiply''"
    by (simp add: lower_def lower_char_def)
  from compute_caller_errors [of "\<lparr>encrypted_numbers = [NotJSON], public_key = Doc (JDict [(''n'', JInt 15)]),
      operation = ''Divide'', multiplier = None\<rparr>" "\<lparr>pk_n = 15\<rparr>" integer_encoding]
    compute_caller_errors [of "\<lparr>encrypted_numbers = [], public_key = Doc (JDict [(''n'', JInt 15)]),
      operation = ''MULTIPLY'', multiplier = None\<rparr>" "\<lparr>pk_n = 15\<rparr>" integer_encoding]
    pk l1 l2
  show ?thesis by simp
qed

subsection \<open>C10: the operation name in any letter case\<close>

text \<open>
  C10: the route \<^verbatim>\<open>/compute\<close> lowercases the operation before it dispatches. Two requests
  that differ only in their operation strings are answered alike whenever the two strings
  have the same lower-case form. When the public key deserializes, an operation whose
  lower-case form is \<^verbatim>\<open>add\<close> or \<^verbatim>\<open>sum\<close> is answered with the result of
  \<^verbatim>\<open>add_encrypted_numbers\<close> on the encrypted numbers, and one whose lower-case form is
  \<^verbatim>\<open>multiply\<close>, with a multiplier, with the result of \<^verbatim>\<open>multiply_encrypted_by_scalar\<close> on
  the first encrypted number and the multiplier. So \<^verbatim>\<open>ADD\<close>, \<^verbatim>\<open>Sum\<close> and \<^verbatim>\<open>Multiply\<close> are
  answered like \<^verbatim>\<open>add\<close>, \<^verbatim>\<open>sum\<close> and \<^verbatim>\<open>multiply\<close>.
\<close>

theorem operation_case_insensitive:
  "(lower op1 = lower op2 \<longrightarrow>
      compute_on_encrypted sch (request\<lparr>operation := op1\<rparr>) =
      compute_on_encrypted sch (request\<lparr>operation := op2\<rparr>)) \<and>
   (deserialize_public_key (public_key request) = Inr pk \<longrightarrow>
    lower (operation request) \<in> {''add'', ''sum''} \<longrightarrow>
      compute_on_encrypted sch request =
        reraise ''Computation failed: ''
          (and_then (add_encrypted_numbers sch pk (encrypted_numbers request))
             (\<lambda>result. Inr \<lparr>encrypted_result = result\<rparr>))) \<and>
   (deserialize_public_key (public_key request) = Inr pk \<longrightarrow>
    lower (operation request) = ''multiply'' \<longrightarrow> multiplier request = Some k \<longrightarrow>
      compute_on_encrypted sch request =
        reraise ''Computation failed: ''
          (and_then (py_first (encrypted_numbers request)) (\<lambda>first.
           and_then (multiply_encrypted_by_scalar sch pk first k)
             (\<lambda>result. Inr \<lparr>encrypted_result = result\<rparr>))))"
proof (intro conjI impI)
  assume "lower op1 = lower op2"
  then show "compute_on_encrypted sch (request\<lparr>operation := op1\<rparr>) =
      compute_on_encrypted sch (request\<lparr>operation := op2\<rparr>)"
    by (simp add: compute_on_encrypted_def Let_def cong: if_cong option.case_cong)
next
  assume "deserialize_public_key (public_key request) = Inr pk"
    and "lower (operation request) \<in> {''add'', ''sum''}"
  then show "compute_on_encrypted sch request =
        reraise ''Computation failed: ''
          (and_then (add_encrypted_numbers sch pk (encrypted_numbers request))
             (\<lambda>result. Inr \<lparr>encrypted_result = result\<rparr>))"
    by (auto simp: compute_on_encrypted_def)
next
  assume "deserialize_public_key (public_key request) = Inr pk"
    and "lower (operation request) = ''multiply''" and "multiplier request = Some k"
  then show "compute_on_encrypted sch request =
        reraise ''Computation failed: ''
          (and_then (py_first (encrypted_numbers request)) (\<lambda>first.
           and_then (multiply_encrypted_by_scalar sch pk first k)
             (\<lambda>result. Inr \<lparr>encrypted_result = result\<rparr>)))"
    by (cases "py_first (encrypted_numbers request)") (simp_all add: compute_on_encrypted_def)
qed

theorem operation_case_insensitive_witness:
  "lower ''ADD'' = lower ''add'' \<and> lower ''Sum'' = lower ''sum'' \<and> lower ''Multiply'' = lower ''multiply'' \<and>
   lower ''add'' = ''add'' \<and> lower ''sum'' = ''sum'' \<and> lower ''multiply'' = ''multiply'' \<and>
   deserialize_public_key (Doc (JDict [(''n'', JInt 15)])) = Inr \<lparr>pk_n = 15\<rparr> \<and>
   add_encrypted_numbers integer_encoding \<lparr>pk_n = 15\<rparr>
     [Doc (JDict [(''ciphertext'', JStr ''158''), (''exponent'', JInt 0)]),
      Doc (JDict [(''ciphertext'', JStr ''2693''), (''exponent'', JInt 0)])]
     = Inr (Doc (JDict [(''ciphertext'', JStr ''19''), (''exponent'', JInt 0)])) \<and>
   multiply_encrypted_by_scalar integer_encoding \<lparr>pk_n = 15\<rparr>
     (Doc (JDict [(''ciphertext'', JStr ''158''), (''exponent'', JInt 0)])) (Finite 3)
     = Inr (Doc (JDict [(''ciphertext'', JStr ''62''), (''exponent'', JInt 0)])) \<and>
   compute_on_encrypted integer_encoding
     \<lparr>encrypted_numbers = [Doc (JDict [(''ciphertext'', JStr ''158''), (''exponent'', JInt 0)]),
                           Doc (JDict [(''ciphertext'', JStr ''2693''), (''exponent'', JInt 0)])],
      public_key = Doc (JDict [(''n'', JInt 15)]), operation = ''ADD'', multiplier = Some (Finite 3)\<rparr>
     = Inr \<lparr>encrypted_result = Doc (JDict [(''ciphertext'', JStr ''19''), (''exponent'', JInt 0)])\<rparr> \<and>
   compute_on_encrypted integer_encoding
     \<lparr>encrypted_numbers = [Doc (JDict [(''ciphertext'', JStr ''158''), (''exponent'', JInt 0)]),
                           Doc (JDict [(''ciphertext'', JStr ''2693''), (''exponent'', JInt 0)])],
      public_key = Doc (JDict [(''n'', JInt 15)]), operation = ''Sum'', multiplier = Some (Finite 3)\<rparr>
     = Inr \<lparr>encrypted_result = Doc (JDict [(''ciphertext'', JStr ''19''), (''exponent'', JInt 0)])\<rparr> \<and>
   compute_on_encrypted integer_encoding
     \<lparr>encrypted_numbers = [Doc (JDict [(''ciphertext'', JStr ''158''), (''exponent'', JInt 0)]),
                           Doc (JDict [(''ciphertext'', JStr ''2693''), (''exponent'', JInt 0)])],
      public_key = Doc (JDict [(''n'', JInt 15)]), operation = ''Multiply'', multiplier = Some (Finite 3)\<rparr>
     = Inr \<lparr>encrypted_result = Doc (JDict [(''ciphertext'', JStr ''62''), (''exponent'', JInt 0)])\<rparr> \<and>
   compute_on_encrypted integer_encoding
     \<lparr>encrypted_numbers = [Doc (JDict [(''ciphertext'', JStr ''158''), (''exponent'', JInt 0)]),
                           Doc (JDict [(''ciphertext'', JStr ''2693''), (''exponent'', JInt 0)])],
      public_key = Doc (JDict [(''n'', JInt 15)]), operation = ''Multiply'', multiplier = Some (Finite 3)\<rparr>
     = compute_on_encrypted integer_encoding
     \<lparr>encrypted_numbers = [Doc (JDict [(''ciphertext'', JStr ''158''), (''exponent'', JInt 0)]),
                           Doc (JDict [(''ciphertext'', JStr ''2693''), (''exponent'', JInt 0)])],
      public_key = Doc (JDict [(''n'', JInt 15)]), operation = ''multiply'', multiplier = Some (Finite 3)\<rparr>"
proof -
  let ?a = "Doc (JDict [(''ciphertext'', JStr ''158''), (''exponent'', JInt 0)])"
  let ?b = "Doc (JDict [(''ciphertext'', JStr ''2693''), (''exponent'', JInt 0)])"
  let ?pk = "\<lparr>pk_n = 15\<rparr>"
  let ?r = "\<lambda>op. \<lparr>encrypted_numbers = [?a, ?b], public_key = Doc (JDict [(''n'', JInt 15)]),
      operation = op, multiplier = Some (Finite 3)\<rparr>"
  have l: "lower ''ADD'' = lower ''add''" "lower ''Sum'' = lower ''sum''"
    "lower ''Multiply'' = lower ''multiply''"
    "lower ''add'' = ''add''" "lower ''sum'' = ''sum''" "lower ''multiply'' = ''multiply''"
    by (simp_all add: lower_def lower_char_def)
  have lu: "lower ''ADD'' = ''add''" "lower ''Sum'' = ''sum''" "lower ''Multiply'' = ''multiply''"
    by (simp_all add: lower_def lower_char_def)
  have pk: "deserialize_public_key (Doc (JDict [(''n'', JInt 15)])) = Inr ?pk"
    by (simp add: deserialize_public_key_def)
  have add: "add_encrypted_numbers integer_encoding ?pk [?a, ?b]
      = Inr (Doc (JDict [(''ciphertext'', JStr ''19''), (''exponent'', JInt 0)]))"
    by (simp add: integer_encoding_def nsquare_def dump_encrypted_number_def json_dumps_def
      str_int_def str_nat_digit str_nat_step digit_char_def add_encrypted_numbers_def
      load_encrypted_number_def int_of_str_def strip_def is_space_def digit_value_def enc_add_def
      rescale_def powmod_def)
  have e3: "encode integer_encoding ?pk (Finite 3) = Some (3, 0)"
    using integer_encode [of ?pk 3] by simp
  have load: "load_encrypted_number ?pk ?a
      = Inr \<lparr>en_public_key = ?pk, en_ciphertext = 158, en_exponent = JInt 0\<rparr>"
    by (simp add: load_encrypted_number_def int_of_str_def strip_def is_space_def digit_value_def)
  have mul: "multiply_encrypted_by_scalar integer_encoding ?pk ?a (Finite 3)
      = Inr (Doc (JDict [(''ciphertext'', JStr ''62''), (''exponent'', JInt 0)]))"
    unfolding multiply_encrypted_by_scalar_def load
    by (simp add: enc_mul_def e3 Let_def powmod_def nsquare_def
      dump_encrypted_number_def json_dumps_def str_int_def str_nat_digit str_nat_step digit_char_def)
  note i1 = operation_case_insensitive [of "''ADD''" "''add''" integer_encoding "?r ''x''" ?pk "Finite 3"]
  note i2 = operation_case_insensitive [of "''Multiply''" "''multiply''" integer_encoding "?r ''ADD''" ?pk "Finite 3"]
  note i3 = operation_case_insensitive [of "''Multiply''" "''multiply''" integer_encoding "?r ''Sum''" ?pk "Finite 3"]
  note i4 = operation_case_insensitive [of "''Multiply''" "''multiply''" integer_encoding "?r ''Multiply''" ?pk "Finite 3"]
  have "compute_on_encrypted integer_encoding (?r ''ADD'')
      = Inr \<lparr>encrypted_result = Doc (JDict [(''ciphertext'', JStr ''19''), (''exponent'', JInt 0)])\<rparr>"
    using i2 pk lu add by simp
  moreover have "compute_on_encrypted integer_encoding (?r ''Sum'')
      = Inr \<lparr>encrypted_result = Doc (JDict [(''ciphertext'', JStr ''19''), (''exponent'', JInt 0)])\<rparr>"
    using i3 pk lu add by simp
  moreover have "compute_on_encrypted integer_encoding (?r ''Multiply'')
      = Inr \<lparr>encrypted_result = Doc (JDict [(''ciphertext'', JStr ''62''), (''exponent'', JInt 0)])\<rparr>"
    using i4 pk lu mul by simp
  moreover have "compute_on_encrypted integer_encoding (?r ''Multiply'')
      = compute_on_encrypted integer_encoding (?r ''multiply'')"
    using i4 l by simp
  ultimately show ?thesis using l pk add mul by simp
qed

end
